theory Spec2Isabelle
  imports Complex_Main "HOL-Library.Sublist"
begin

section \<open>Python values\<close>

text \<open>
  The responses of the remote service are whatever \<^verbatim>\<open>await resp.json()\<close> parses, so the
  model works on JSON values with Python's dynamic operations on them. A float is kept as
  far as comparison with an integer literal needs it: a finite value (a rational), the two
  infinities and NaN. A dict is an association list; the first binding of a key is the
  dict's entry for it.
\<close>

datatype pyfloat = Finite rat | PosInf | NegInf | NaN

datatype json =
    JNull
  | JBool bool
  | JInt int
  | JFloat pyfloat
  | JStr string
  | JList "json list"
  | JObj "(string \<times> json) list"

text \<open>
  The exceptions that occur. \<open>ClientError\<close> is \<^verbatim>\<open>aiohttp.ClientError\<close>, \<open>TimeoutError\<close> is
  \<^verbatim>\<open>asyncio.TimeoutError\<close>, \<open>CancelledError\<close> is \<^verbatim>\<open>asyncio.CancelledError\<close>, which derives
  from \<^verbatim>\<open>BaseException\<close> and not from \<^verbatim>\<open>Exception\<close> (Python 3.8 and later); all the others
  derive from \<^verbatim>\<open>Exception\<close>. A JSON decoding error is a \<open>ValueError\<close>.
\<close>

datatype py_exn =
    ValueError
  | TypeError
  | KeyError
  | AttributeError
  | InvalidStateError
  | ClientError
  | TimeoutError
  | CancelledError

fun is_Exception :: "py_exn \<Rightarrow> bool" where
  "is_Exception CancelledError = False"
| "is_Exception _ = True"

text \<open>Truth value of a float and its comparisons with an integer.\<close>

fun float_truthy :: "pyfloat \<Rightarrow> bool" where
  "float_truthy (Finite q) = (q \<noteq> 0)"
| "float_truthy _ = True"

fun float_lt_int :: "pyfloat \<Rightarrow> int \<Rightarrow> bool" where
  "float_lt_int (Finite q) n = (q < of_int n)"
| "float_lt_int NegInf n = True"
| "float_lt_int _ n = False"

fun float_eq_int :: "pyfloat \<Rightarrow> int \<Rightarrow> bool" where
  "float_eq_int (Finite q) n = (q = of_int n)"
| "float_eq_int _ n = False"

text \<open>\<^verbatim>\<open>bool(v)\<close>, as \<^verbatim>\<open>not v\<close>, \<^verbatim>\<open>if v\<close> and \<^verbatim>\<open>v and ...\<close> take it.\<close>

fun truthy :: "json \<Rightarrow> bool" where
  "truthy JNull = False"
| "truthy (JBool b) = b"
| "truthy (JInt n) = (n \<noteq> 0)"
| "truthy (JFloat f) = float_truthy f"
| "truthy (JStr s) = (s \<noteq> [])"
| "truthy (JList l) = (l \<noteq> [])"
| "truthy (JObj d) = (d \<noteq> [])"

fun starts_with :: "string \<Rightarrow> string \<Rightarrow> bool" where
  "starts_with s [] = True"
| "starts_with [] (p # ps) = False"
| "starts_with (c # cs) (p # ps) = (c = p \<and> starts_with cs ps)"

fun str_contains :: "string \<Rightarrow> string \<Rightarrow> bool" where
  "str_contains [] p = (p = [])"
| "str_contains (c # cs) p = (starts_with (c # cs) p \<or> str_contains cs p)"

text \<open>
  \<^verbatim>\<open>k in v\<close> for a string \<open>k\<close>: a key of a dict, an element of a list, a substring of a
  string; any other value is not iterable.
\<close>

fun py_in :: "string \<Rightarrow> json \<Rightarrow> py_exn + bool" where
  "py_in k (JObj d) = Inr (map_of d k \<noteq> None)"
| "py_in k (JList l) = Inr (JStr k \<in> set l)"
| "py_in k (JStr s) = Inr (str_contains s k)"
| "py_in k _ = Inl TypeError"

text \<open>\<^verbatim>\<open>v[k]\<close> for a string \<open>k\<close>.\<close>

fun py_getitem :: "json \<Rightarrow> string \<Rightarrow> py_exn + json" where
  "py_getitem (JObj d) k = (case map_of d k of None \<Rightarrow> Inl KeyError | Some x \<Rightarrow> Inr x)"
| "py_getitem _ k = Inl TypeError"

text \<open>\<^verbatim>\<open>v.get(k)\<close>: only a dict has the method.\<close>

fun py_get :: "json \<Rightarrow> string \<Rightarrow> py_exn + json" where
  "py_get (JObj d) k = (case map_of d k of None \<Rightarrow> Inr JNull | Some x \<Rightarrow> Inr x)"
| "py_get _ k = Inl AttributeError"

text \<open>\<^verbatim>\<open>v < n\<close> and \<^verbatim>\<open>v == n\<close> for an integer literal \<open>n\<close>; \<^verbatim>\<open>True\<close> is 1 and \<^verbatim>\<open>False\<close> is 0.\<close>

fun py_lt_int :: "json \<Rightarrow> int \<Rightarrow> py_exn + bool" where
  "py_lt_int (JInt m) n = Inr (m < n)"
| "py_lt_int (JBool b) n = Inr ((if b then 1 else 0) < n)"
| "py_lt_int (JFloat f) n = Inr (float_lt_int f n)"
| "py_lt_int _ n = Inl TypeError"

fun py_eq_int :: "json \<Rightarrow> int \<Rightarrow> bool" where
  "py_eq_int (JInt m) n = (m = n)"
| "py_eq_int (JBool b) n = ((if b then 1 else 0) = n)"
| "py_eq_int (JFloat f) n = float_eq_int f n"
| "py_eq_int _ n = False"

section \<open>Constants\<close>

definition RETRIES :: int where
  "RETRIES = 60"

datatype connection_state = CONNECTED | DISCONNECTED | NONE_CONNECTION

section \<open>ProxyManager\<close>

record agent =
  token_info :: "string option"
  proxy :: string
  browser_id :: string
  account_info :: json
  status_connect :: connection_state
  retries :: int

text \<open>\<^verbatim>\<open>__init__\<close>; the fresh \<^verbatim>\<open>uuid4\<close> is a parameter.\<close>

definition init :: "string \<Rightarrow> string \<Rightarrow> string \<Rightarrow> agent" where
  "init np_token prx uuid =
     \<lparr> token_info = Some np_token, proxy = prx, browser_id = uuid,
       account_info = JObj [], status_connect = NONE_CONNECTION, retries = 0 \<rparr>"

text \<open>
  \<^verbatim>\<open>valid_resp\<close>: the three tests of the \<^verbatim>\<open>or\<close> run left to right and each may raise.
\<close>

definition valid_resp :: "json \<Rightarrow> py_exn + json" where
  "valid_resp resp =
     (if \<not> truthy resp then Inl ValueError
      else (case py_in ''code'' resp of
        Inl e \<Rightarrow> Inl e
      | Inr has_code \<Rightarrow>
          (if \<not> has_code then Inl ValueError
           else (case py_getitem resp ''code'' of
             Inl e \<Rightarrow> Inl e
           | Inr c \<Rightarrow>
               (case py_lt_int c 0 of
                  Inl e \<Rightarrow> Inl e
                | Inr negative \<Rightarrow> (if negative then Inl ValueError else Inr resp))))))"

text \<open>\<^verbatim>\<open>handle_logout\<close>\<close>

definition handle_logout :: "agent \<Rightarrow> agent" where
  "handle_logout s =
     s\<lparr> token_info := None, status_connect := NONE_CONNECTION, account_info := JObj [] \<rparr>"

text \<open>
  What an \<^verbatim>\<open>await\<close> resumes with: a value, or an exception thrown into the coroutine.
  The environment (the network, the proxy, the remote service, the event loop) chooses it.
  The request of \<^verbatim>\<open>call_api\<close> (\<^verbatim>\<open>session.post\<close> and \<^verbatim>\<open>resp.json()\<close>) is one such point
  and \<^verbatim>\<open>asyncio.sleep\<close> is another, which ignores the value.
\<close>

datatype await_result = Returns json | Raises py_exn

definition DOMAIN_API_SESSION :: string where
  "DOMAIN_API_SESSION = ''https://api.nodepay.ai/api/auth/session''"

definition DOMAIN_API_PING :: string where
  "DOMAIN_API_PING = ''https://nw2.nodepay.ai/api/network/ping''"

text \<open>
  \<^verbatim>\<open>call_api\<close>: the parsed body goes through \<open>valid_resp\<close>; a \<open>ClientError\<close> of the request
  is raised again as a \<open>ValueError\<close>, every other exception passes. The headers, the url
  and the body sent have no effect on the agent's state.
\<close>

definition call_api :: "agent \<Rightarrow> string \<Rightarrow> json \<Rightarrow> await_result \<Rightarrow> py_exn + json" where
  "call_api s url data ev =
     (case ev of
        Returns response \<Rightarrow> valid_resp response
      | Raises e \<Rightarrow> (if e = ClientError then Inl ValueError else Inl e))"

text \<open>
  \<^verbatim>\<open>handle_ping_fail\<close>. Both branches below the test for 403 assign \<open>DISCONNECTED\<close>, as in
  the source.
\<close>

definition handle_ping_fail :: "json \<Rightarrow> agent \<Rightarrow> (py_exn + unit) \<times> agent" where
  "handle_ping_fail response s =
     (let s1 = s\<lparr> retries := retries s + 1 \<rparr> in
      case (if \<not> truthy response then Inr False
            else (case py_get response ''code'' of
                    Inl e \<Rightarrow> Inl e
                  | Inr c \<Rightarrow> Inr (py_eq_int c 403))) of
        Inl e \<Rightarrow> (Inl e, s1)
      | Inr forbidden \<Rightarrow>
          (if forbidden then (Inr (), handle_logout s1)
           else if retries s1 < RETRIES then (Inr (), s1\<lparr> status_connect := DISCONNECTED \<rparr>)
           else (Inr (), s1\<lparr> status_connect := DISCONNECTED \<rparr>)))"

text \<open>
  \<^verbatim>\<open>ping\<close>. The request body is built before the \<^verbatim>\<open>try\<close>, so an \<open>account_info\<close> without a
  \<^verbatim>\<open>get\<close> method raises out of \<open>ping\<close>; the timestamp of the body is left out. Inside the
  \<^verbatim>\<open>try\<close>, every \<^verbatim>\<open>Exception\<close> leads to \<open>handle_ping_fail\<close> with \<^verbatim>\<open>None\<close>.
\<close>

definition ping_data :: "agent \<Rightarrow> py_exn + json" where
  "ping_data s =
     (case py_get (account_info s) ''uid'' of
        Inl e \<Rightarrow> Inl e
      | Inr uid \<Rightarrow> Inr (JObj [(''id'', uid), (''browser_id'', JStr (browser_id s))]))"

definition ping_try :: "json \<Rightarrow> await_result \<Rightarrow> agent \<Rightarrow> (py_exn + unit) \<times> agent" where
  "ping_try data ev s =
     (case call_api s DOMAIN_API_PING data ev of
        Inl e \<Rightarrow> (Inl e, s)
      | Inr response \<Rightarrow>
          (case py_getitem response ''code'' of
             Inl e \<Rightarrow> (Inl e, s)
           | Inr c \<Rightarrow>
               (if py_eq_int c 0 then (Inr (), s\<lparr> retries := 0, status_connect := CONNECTED \<rparr>)
                else handle_ping_fail response s)))"

definition ping :: "await_result \<Rightarrow> agent \<Rightarrow> (py_exn + unit) \<times> agent" where
  "ping ev s =
     (case ping_data s of
        Inl e \<Rightarrow> (Inl e, s)
      | Inr data \<Rightarrow>
          (case ping_try data ev s of
             (Inl e, s1) \<Rightarrow> (if is_Exception e then handle_ping_fail JNull s1 else (Inl e, s1))
           | (Inr u, s1) \<Rightarrow> (Inr u, s1)))"

text \<open>
  A coroutine run against the results of its awaits, in order: it is suspended at an await
  when the list is used up, or it has returned a value, or an exception has left it.
\<close>

datatype outcome = Suspended agent | Returned json agent | Thrown py_exn agent

text \<open>The \<^verbatim>\<open>while True\<close> of \<^verbatim>\<open>start_ping\<close>: sleep, then ping.\<close>

fun ping_loop :: "await_result list \<Rightarrow> agent \<Rightarrow> outcome" where
  "ping_loop [] s = Suspended s"
| "ping_loop (Raises e # evs) s = Thrown e s"
| "ping_loop [Returns v] s =
     (case ping_data s of Inl e \<Rightarrow> Thrown e s | Inr data \<Rightarrow> Suspended s)"
| "ping_loop (Returns v # ev # evs) s =
     (case ping ev s of
        (Inl e, s1) \<Rightarrow> Thrown e s1
      | (Inr u, s1) \<Rightarrow> ping_loop evs s1)"

definition start_ping_try :: "await_result list \<Rightarrow> agent \<Rightarrow> outcome" where
  "start_ping_try evs s =
     (case evs of
        [] \<Rightarrow> (case ping_data s of Inl e \<Rightarrow> Thrown e s | Inr data \<Rightarrow> Suspended s)
      | ev # rest \<Rightarrow>
          (case ping ev s of
             (Inl e, s1) \<Rightarrow> Thrown e s1
           | (Inr u, s1) \<Rightarrow> ping_loop rest s1))"

text \<open>\<^verbatim>\<open>start_ping\<close>: both handlers log and fall through, so the method returns \<^verbatim>\<open>None\<close>.\<close>

definition start_ping :: "await_result list \<Rightarrow> agent \<Rightarrow> outcome" where
  "start_ping evs s =
     (case start_ping_try evs s of
        Thrown e s1 \<Rightarrow>
          (if e = CancelledError then Returned JNull s1
           else if is_Exception e then Returned JNull s1
           else Thrown e s1)
      | Returned v s1 \<Rightarrow> Returned JNull s1
      | Suspended s1 \<Rightarrow> Suspended s1)"

text \<open>The two placeholders of the source.\<close>

definition load_session_info :: "agent \<Rightarrow> json" where
  "load_session_info s = JObj []"

definition save_session_info :: "json \<Rightarrow> agent \<Rightarrow> agent" where
  "save_session_info data s = s"

text \<open>\<^verbatim>\<open>render_profile_info\<close>: the body of the \<^verbatim>\<open>try\<close>, then the whole method.\<close>

definition render_profile_info_try :: "await_result list \<Rightarrow> agent \<Rightarrow> outcome" where
  "render_profile_info_try evs s =
     (let np_session_info = load_session_info s in
      if \<not> truthy np_session_info then
        (case evs of
           [] \<Rightarrow> Suspended s
         | ev # rest \<Rightarrow>
             (case call_api s DOMAIN_API_SESSION (JObj []) ev of
                Inl e \<Rightarrow> Thrown e s
              | Inr response \<Rightarrow>
                  (case py_getitem response ''data'' of
                     Inl e \<Rightarrow> Thrown e s
                   | Inr d \<Rightarrow>
                       (let s1 = s\<lparr> account_info := d \<rparr> in
                        case py_get (account_info s1) ''uid'' of
                          Inl e \<Rightarrow> Thrown e s1
                        | Inr uid \<Rightarrow>
                            (if truthy uid
                             then start_ping rest (save_session_info (account_info s1) s1)
                             else Returned JNull (handle_logout s1))))))
      else start_ping evs (s\<lparr> account_info := np_session_info \<rparr>))"

definition render_profile_info :: "await_result list \<Rightarrow> agent \<Rightarrow> outcome" where
  "render_profile_info evs s =
     (case render_profile_info_try evs s of
        Thrown e s1 \<Rightarrow> (if is_Exception e then Returned JNull s1 else Thrown e s1)
      | Returned v s1 \<Rightarrow> Returned JNull s1
      | Suspended s1 \<Rightarrow> Suspended s1)"

section \<open>The loop of main\<close>

text \<open>
  A task is named by a number and \<open>tasks\<close> is the dict from tasks to proxies, in insertion
  order: one task for each of the first 100 proxies.
\<close>

type_synonym task = nat
type_synonym tasks = "(task \<times> string) list"

definition NP_TOKEN :: string where
  "NP_TOKEN = ''WRITE_YOUR_NP_TOKEN_HERE''"

definition create_tasks :: "string list \<Rightarrow> tasks" where
  "create_tasks proxies =
     (let active_proxies = take 100 proxies
      in zip [0 ..< length active_proxies] active_proxies)"

text \<open>
  \<^verbatim>\<open>task.result()\<close>: the value returned, the exception that left the coroutine, or
  \<open>InvalidStateError\<close> for a task that is not done.
\<close>

fun task_result :: "outcome \<Rightarrow> py_exn + json" where
  "task_result (Returned v s) = Inr v"
| "task_result (Thrown e s) = Inl e"
| "task_result (Suspended s) = Inl InvalidStateError"

text \<open>\<^verbatim>\<open>tasks.pop(task)\<close>\<close>

definition pop :: "task \<Rightarrow> tasks \<Rightarrow> py_exn + (string \<times> tasks)" where
  "pop t ts =
     (case map_of ts t of
        None \<Rightarrow> Inl KeyError
      | Some failed_proxy \<Rightarrow> Inr (failed_proxy, filter (\<lambda>(k, v). k \<noteq> t) ts))"

text \<open>
  The \<^verbatim>\<open>for task in done\<close> of one round, on the done tasks with the outcome of each one's
  run; an exception ends it with the dict as it is then.
\<close>

fun reap :: "(task \<times> outcome) list \<Rightarrow> tasks \<Rightarrow> py_exn option \<times> tasks" where
  "reap [] ts = (None, ts)"
| "reap ((t, out) # done) ts =
     (case task_result out of
        Inl e \<Rightarrow> (Some e, ts)
      | Inr v \<Rightarrow>
          (if v = JNull then
             (case pop t ts of
                Inl e \<Rightarrow> (Some e, ts)
              | Inr (failed_proxy, ts1) \<Rightarrow> reap done ts1)
           else reap done ts))"

text \<open>
  The \<^verbatim>\<open>while tasks\<close> of \<open>main\<close> against the \<open>done\<close> sets that \<^verbatim>\<open>asyncio.wait\<close> returns, round
  by round. The result lists the values of \<open>tasks\<close>: at each test of the loop condition
  and, when a round raises, at the raise. The two awaits of the loop are not interrupted.
\<close>

fun main_loop :: "(task \<times> outcome) list list \<Rightarrow> tasks \<Rightarrow> tasks list" where
  "main_loop [] ts = [ts]"
| "main_loop (done # rounds) ts =
     (if ts = [] then [ts]
      else (case reap done ts of
              (Some e, ts1) \<Rightarrow> [ts, ts1]
            | (None, ts1) \<Rightarrow> ts # main_loop rounds ts1))"

section \<open>Response validation\<close>

lemma py_lt_int_exn: "py_lt_int c n = Inl e \<Longrightarrow> e = TypeError"
  by (cases c) auto

lemma valid_resp_Inr:
  "valid_resp resp = Inr r \<longleftrightarrow>
     r = resp \<and> (\<exists>d c. resp = JObj d \<and> map_of d ''code'' = Some c \<and> py_lt_int c 0 = Inr False)"
  by (cases resp) (auto simp: valid_resp_def split: sum.splits option.splits if_splits)

lemma valid_resp_ValueError:
  "valid_resp resp = Inl ValueError \<longleftrightarrow>
     \<not> truthy resp \<or> py_in ''code'' resp = Inr False
     \<or> (\<exists>c. py_getitem resp ''code'' = Inr c \<and> py_lt_int c 0 = Inr True)"
  by (cases resp) (auto simp: valid_resp_def split: sum.splits option.splits if_splits dest: py_lt_int_exn)

lemma valid_resp_exn:
  "valid_resp resp = Inl e \<Longrightarrow> e = ValueError \<or> e = TypeError"
  by (cases resp) (auto simp: valid_resp_def split: sum.splits option.splits if_splits dest: py_lt_int_exn)

lemma call_api_Inr:
  "call_api s url data ev = Inr response \<Longrightarrow>
     \<exists>d c. response = JObj d \<and> map_of d ''code'' = Some c"
  by (auto simp: call_api_def valid_resp_Inr split: await_result.splits if_splits)

text \<open>
  C7, as stated, fails: a non-empty object whose \<^verbatim>\<open>code\<close> is the string \<^verbatim>\<open>"abc"\<close> is truthy,
  has the field and its code is not negative, yet \<open>valid_resp\<close> neither returns it nor
  raises \<open>ValueError\<close>: the comparison \<^verbatim>\<open>"abc" < 0\<close> raises \<open>TypeError\<close>.
\<close>

theorem valid_resp_counterexample:
  "truthy (JObj [(''code'', JStr ''abc'')])
   \<and> py_in ''code'' (JObj [(''code'', JStr ''abc'')]) = Inr True
   \<and> py_getitem (JObj [(''code'', JStr ''abc'')]) ''code'' = Inr (JStr ''abc'')
   \<and> py_lt_int (JStr ''abc'') 0 \<noteq> Inr True
   \<and> valid_resp (JObj [(''code'', JStr ''abc'')]) = Inl TypeError"
  by (simp add: valid_resp_def)

text \<open>
  C7, amended. \<open>valid_resp\<close> raises \<open>ValueError\<close> exactly when the body is falsy, or does
  not contain \<^verbatim>\<open>"code"\<close>, or has a code that compares as negative. It returns a value
  exactly when the body is an object with a \<^verbatim>\<open>code\<close> that is a number (an int, a float or a
  bool) and is not negative, 403 included, and the value returned is the body unchanged. For
  every remaining body (a truthy number or bool, a list or a string containing
  \<^verbatim>\<open>"code"\<close>, an object whose code is not a number) it raises \<open>TypeError\<close>.
\<close>

theorem valid_resp_characterisation:
  "(valid_resp resp = Inl ValueError \<longleftrightarrow>
      \<not> truthy resp \<or> py_in ''code'' resp = Inr False
      \<or> (\<exists>c. py_getitem resp ''code'' = Inr c \<and> py_lt_int c 0 = Inr True))
   \<and> ((\<exists>r. valid_resp resp = Inr r) \<longleftrightarrow>
      (\<exists>d c. resp = JObj d \<and> map_of d ''code'' = Some c \<and> py_lt_int c 0 = Inr False))
   \<and> (\<forall>r. valid_resp resp = Inr r \<longrightarrow> r = resp)
   \<and> (valid_resp resp \<noteq> Inl ValueError \<and> valid_resp resp \<noteq> Inr resp \<longrightarrow>
        valid_resp resp = Inl TypeError)"
proof -
  have a: "valid_resp resp \<noteq> Inl ValueError \<and> valid_resp resp \<noteq> Inr resp \<longrightarrow>
        valid_resp resp = Inl TypeError"
  proof (cases "valid_resp resp")
    case (Inl e)
    then show ?thesis using valid_resp_exn [of resp e] by auto
  next
    case (Inr r)
    then show ?thesis using valid_resp_Inr [of resp r] by auto
  qed
  show ?thesis
    using valid_resp_ValueError [of resp] a by (auto simp: valid_resp_Inr)
qed

theorem valid_resp_characterisation_witness:
  "valid_resp (JObj [(''code'', JInt 403)]) = Inr (JObj [(''code'', JInt 403)])
   \<and> valid_resp (JObj [(''code'', JInt (-1))]) = Inl ValueError
   \<and> valid_resp (JObj [(''data'', JInt 1)]) = Inl ValueError
   \<and> valid_resp JNull = Inl ValueError"
  using valid_resp_characterisation [of "JObj [(''code'', JInt 403)]"]
    valid_resp_characterisation [of "JObj [(''code'', JInt (-1))]"]
    valid_resp_characterisation [of "JObj [(''data'', JInt 1)]"]
    valid_resp_characterisation [of JNull]
  by (simp add: valid_resp_def)

section \<open>Heartbeat\<close>

lemma handle_ping_fail_None:
  "handle_ping_fail JNull s = (Inr (), s\<lparr> retries := retries s + 1, status_connect := DISCONNECTED \<rparr>)"
  by (simp add: handle_ping_fail_def Let_def)

lemma handle_ping_fail_dict:
  "map_of d ''code'' = Some c \<Longrightarrow>
   handle_ping_fail (JObj d) s =
     (if py_eq_int c 403 then (Inr (), handle_logout (s\<lparr> retries := retries s + 1 \<rparr>))
      else (Inr (), s\<lparr> retries := retries s + 1, status_connect := DISCONNECTED \<rparr>))"
  by (auto simp: handle_ping_fail_def Let_def)

lemma ping_validated:
  assumes "ping_data s = Inr data"
    and "valid_resp body = Inr response"
    and "py_getitem response ''code'' = Inr c"
  shows "ping (Returns body) s =
     (if py_eq_int c 0 then (Inr (), s\<lparr> retries := 0, status_connect := CONNECTED \<rparr>)
      else if py_eq_int c 403 then (Inr (), handle_logout (s\<lparr> retries := retries s + 1 \<rparr>))
      else (Inr (), s\<lparr> retries := retries s + 1, status_connect := DISCONNECTED \<rparr>))"
proof -
  from assms(2) obtain d c' where d: "response = JObj d" "map_of d ''code'' = Some c'"
    by (auto simp: valid_resp_Inr)
  with assms(3) have c: "c' = c" by simp
  show ?thesis
    using assms d c
    by (simp add: ping_def ping_try_def call_api_def handle_ping_fail_dict)
qed

lemma ping_raises:
  assumes "ping_data s = Inr data"
    and "call_api s DOMAIN_API_PING data ev = Inl e"
  shows "ping ev s =
     (if is_Exception e
      then (Inr (), s\<lparr> retries := retries s + 1, status_connect := DISCONNECTED \<rparr>)
      else (Inl e, s))"
  using assms by (simp add: ping_def ping_try_def handle_ping_fail_None)

text \<open>
  C2. When a heartbeat (its request body could be built) receives a validated response
  whose code equals 403, the agent logs out whatever \<open>retries\<close> is: the credential is
  cleared, the account info is the empty dict and the connection state is
  \<open>NONE_CONNECTION\<close>.
\<close>

theorem ping_forbidden_logout:
  assumes "ping_data s = Inr data"
    and "valid_resp body = Inr response"
    and "py_getitem response ''code'' = Inr c"
    and "py_eq_int c 403"
  shows "ping (Returns body) s = (Inr (), handle_logout (s\<lparr> retries := retries s + 1 \<rparr>))
    \<and> token_info (snd (ping (Returns body) s)) = None
    \<and> account_info (snd (ping (Returns body) s)) = JObj []
    \<and> status_connect (snd (ping (Returns body) s)) = NONE_CONNECTION"
proof -
  have "\<not> py_eq_int c 0" using assms(4) by (cases c) (auto split: if_splits elim: float_eq_int.elims)
  then show ?thesis
    using ping_validated [OF assms(1-3)] assms(4) by (simp add: handle_logout_def)
qed

theorem ping_forbidden_logout_witness:
  "ping (Returns (JObj [(''code'', JInt 403)]))
     \<lparr> token_info = Some ''tok'', proxy = ''P1'', browser_id = ''b1'',
       account_info = JObj [(''uid'', JStr ''abc'')], status_connect = CONNECTED,
       retries = 75 \<rparr>
   = (Inr (),
     \<lparr> token_info = None, proxy = ''P1'', browser_id = ''b1'',
       account_info = JObj [], status_connect = NONE_CONNECTION, retries = 76 \<rparr>)"
proof -
  let ?s = "\<lparr> token_info = Some ''tok'', proxy = ''P1'', browser_id = ''b1'',
       account_info = JObj [(''uid'', JStr ''abc'')], status_connect = CONNECTED,
       retries = 75 \<rparr>"
  let ?body = "JObj [(''code'', JInt 403)]"
  have h1: "ping_data ?s = Inr (JObj [(''id'', JStr ''abc''), (''browser_id'', JStr ''b1'')])"
    by (simp add: ping_data_def)
  have h2: "valid_resp ?body = Inr ?body" by (simp add: valid_resp_def)
  have h3: "py_getitem ?body ''code'' = Inr (JInt 403)" by simp
  have h4: "py_eq_int (JInt 403) 403" by simp
  show ?thesis
    using ping_forbidden_logout [OF h1 h2 h3 h4] by (simp add: handle_logout_def)
qed

text \<open>
  C3. When a heartbeat receives a validated response whose code equals 0, \<open>retries\<close> is
  set to 0, whatever it was (the witness starts from 75, above the ceiling of 60), and the
  connection state is set to \<open>CONNECTED\<close>.
\<close>

theorem ping_success_resets:
  assumes "ping_data s = Inr data"
    and "valid_resp body = Inr response"
    and "py_getitem response ''code'' = Inr c"
    and "py_eq_int c 0"
  shows "ping (Returns body) s = (Inr (), s\<lparr> retries := 0, status_connect := CONNECTED \<rparr>)
    \<and> retries (snd (ping (Returns body) s)) = 0
    \<and> status_connect (snd (ping (Returns body) s)) = CONNECTED"
  using ping_validated [OF assms(1-3)] assms(4) by simp

theorem ping_success_resets_witness:
  "ping (Returns (JObj [(''code'', JInt 0)]))
     \<lparr> token_info = Some ''tok'', proxy = ''P1'', browser_id = ''b1'',
       account_info = JObj [(''uid'', JStr ''abc'')], status_connect = DISCONNECTED,
       retries = 75 \<rparr>
   = (Inr (),
     \<lparr> token_info = Some ''tok'', proxy = ''P1'', browser_id = ''b1'',
       account_info = JObj [(''uid'', JStr ''abc'')], status_connect = CONNECTED,
       retries = 0 \<rparr>)"
proof -
  let ?s = "\<lparr> token_info = Some ''tok'', proxy = ''P1'', browser_id = ''b1'',
       account_info = JObj [(''uid'', JStr ''abc'')], status_connect = DISCONNECTED,
       retries = 75 \<rparr>"
  let ?body = "JObj [(''code'', JInt 0)]"
  have h1: "ping_data ?s = Inr (JObj [(''id'', JStr ''abc''), (''browser_id'', JStr ''b1'')])"
    by (simp add: ping_data_def)
  have h2: "valid_resp ?body = Inr ?body" by (simp add: valid_resp_def)
  have h3: "py_getitem ?body ''code'' = Inr (JInt 0)" by simp
  have h4: "py_eq_int (JInt 0) 0" by simp
  show ?thesis
    using ping_success_resets [OF h1 h2 h3 h4] by simp
qed

text \<open>
  C4. A failed heartbeat that is not a 403 (\<open>handle_ping_fail\<close> on \<^verbatim>\<open>None\<close> or on a dict whose
  code is not 403) gives the same result for every value \<open>n\<close> of \<open>retries\<close>, below, at or
  above \<open>RETRIES\<close>: the counter is incremented, the state is \<open>DISCONNECTED\<close> and nothing
  else changes, so no logout happens at the ceiling.
\<close>

theorem handle_ping_fail_ceiling_unused:
  assumes "response = JNull \<or> (\<exists>d. response = JObj d)"
    and "\<forall>c. py_get response ''code'' = Inr c \<longrightarrow> \<not> py_eq_int c 403"
  shows "handle_ping_fail response s =
      (Inr (), s\<lparr> retries := retries s + 1, status_connect := DISCONNECTED \<rparr>)
    \<and> handle_ping_fail response (s\<lparr> retries := n \<rparr>) =
      (Inr (), s\<lparr> retries := n + 1, status_connect := DISCONNECTED \<rparr>)"
  using assms by (auto simp: handle_ping_fail_def Let_def split: option.splits)

theorem handle_ping_fail_ceiling_unused_witness:
  "handle_ping_fail (JObj [(''code'', JInt 500)])
     \<lparr> token_info = Some ''tok'', proxy = ''P1'', browser_id = ''b1'',
       account_info = JObj [(''uid'', JStr ''abc'')], status_connect = CONNECTED,
       retries = 3 \<rparr>
   = (Inr (),
     \<lparr> token_info = Some ''tok'', proxy = ''P1'', browser_id = ''b1'',
       account_info = JObj [(''uid'', JStr ''abc'')], status_connect = DISCONNECTED,
       retries = 4 \<rparr>)
   \<and> handle_ping_fail (JObj [(''code'', JInt 500)])
     \<lparr> token_info = Some ''tok'', proxy = ''P1'', browser_id = ''b1'',
       account_info = JObj [(''uid'', JStr ''abc'')], status_connect = CONNECTED,
       retries = 59 \<rparr>
   = (Inr (),
     \<lparr> token_info = Some ''tok'', proxy = ''P1'', browser_id = ''b1'',
       account_info = JObj [(''uid'', JStr ''abc'')], status_connect = DISCONNECTED,
       retries = 60 \<rparr>)"
proof -
  let ?s = "\<lparr> token_info = Some ''tok'', proxy = ''P1'', browser_id = ''b1'',
       account_info = JObj [(''uid'', JStr ''abc'')], status_connect = CONNECTED,
       retries = 3 \<rparr>"
  let ?r = "JObj [(''code'', JInt 500)]"
  have h1: "?r = JNull \<or> (\<exists>d. ?r = JObj d)" by simp
  have h2: "\<forall>c. py_get ?r ''code'' = Inr c \<longrightarrow> \<not> py_eq_int c 403" by simp
  show ?thesis
    using handle_ping_fail_ceiling_unused [OF h1 h2, of ?s 59] by simp
qed

text \<open>
  C6. A heartbeat that fails with an exception of the request (a transport error, a
  timeout) or of the validation (an invalid response), or that receives a validated code
  that is neither 0 nor 403, increments \<open>retries\<close> by one, sets the connection state to
  \<open>DISCONNECTED\<close> and leaves \<open>token_info\<close>, \<open>account_info\<close>, \<open>browser_id\<close> and \<open>proxy\<close>
  unchanged.
\<close>

theorem ping_failure_frame:
  assumes "ping_data s = Inr data"
    and "(\<exists>e. call_api s DOMAIN_API_PING data ev = Inl e \<and> is_Exception e)
       \<or> (\<exists>response c. call_api s DOMAIN_API_PING data ev = Inr response
             \<and> py_getitem response ''code'' = Inr c
             \<and> \<not> py_eq_int c 0 \<and> \<not> py_eq_int c 403)"
  shows "ping ev s = (Inr (), s\<lparr> retries := retries s + 1, status_connect := DISCONNECTED \<rparr>)
    \<and> retries (snd (ping ev s)) = retries s + 1
    \<and> status_connect (snd (ping ev s)) = DISCONNECTED
    \<and> token_info (snd (ping ev s)) = token_info s
    \<and> account_info (snd (ping ev s)) = account_info s
    \<and> browser_id (snd (ping ev s)) = browser_id s
    \<and> proxy (snd (ping ev s)) = proxy s"
proof -
  have "ping ev s = (Inr (), s\<lparr> retries := retries s + 1, status_connect := DISCONNECTED \<rparr>)"
    using assms(2)
  proof (elim disjE exE conjE)
    fix e
    assume "call_api s DOMAIN_API_PING data ev = Inl e" "is_Exception e"
    then show ?thesis using ping_raises [OF assms(1)] by simp
  next
    fix response c
    assume r: "call_api s DOMAIN_API_PING data ev = Inr response"
      and c: "py_getitem response ''code'' = Inr c" "\<not> py_eq_int c 0" "\<not> py_eq_int c 403"
    from r obtain body where "ev = Returns body" "valid_resp body = Inr response"
      by (auto simp: call_api_def split: await_result.splits if_splits)
    then show ?thesis using ping_validated [OF assms(1) _ c(1)] c by simp
  qed
  then show ?thesis by simp
qed

theorem ping_failure_frame_witness:
  "ping (Raises TimeoutError)
     \<lparr> token_info = Some ''tok'', proxy = ''P1'', browser_id = ''b1'',
       account_info = JObj [(''uid'', JStr ''abc'')], status_connect = CONNECTED,
       retries = 0 \<rparr>
   = (Inr (),
     \<lparr> token_info = Some ''tok'', proxy = ''P1'', browser_id = ''b1'',
       account_info = JObj [(''uid'', JStr ''abc'')], status_connect = DISCONNECTED,
       retries = 1 \<rparr>)"
proof -
  let ?s = "\<lparr> token_info = Some ''tok'', proxy = ''P1'', browser_id = ''b1'',
       account_info = JObj [(''uid'', JStr ''abc'')], status_connect = CONNECTED,
       retries = 0 \<rparr>"
  let ?data = "JObj [(''id'', JStr ''abc''), (''browser_id'', JStr ''b1'')]"
  have h1: "ping_data ?s = Inr ?data"
    by (simp add: ping_data_def)
  have h2: "(\<exists>e. call_api ?s DOMAIN_API_PING ?data (Raises TimeoutError) = Inl e \<and> is_Exception e)
       \<or> (\<exists>response c. call_api ?s DOMAIN_API_PING ?data (Raises TimeoutError) = Inr response
             \<and> py_getitem response ''code'' = Inr c
             \<and> \<not> py_eq_int c 0 \<and> \<not> py_eq_int c 403)"
    by (simp add: call_api_def)
  show ?thesis
    using ping_failure_frame [OF h1 h2] by simp
qed

section \<open>Logout\<close>

text \<open>
  C9. Logout is idempotent: applying \<open>handle_logout\<close> twice gives the state that applying
  it once gives, and that state has no credential, an empty account info and the
  connection state \<open>NONE_CONNECTION\<close>.
\<close>

theorem handle_logout_idempotent:
  "handle_logout (handle_logout s) = handle_logout s
   \<and> token_info (handle_logout s) = None
   \<and> account_info (handle_logout s) = JObj []
   \<and> status_connect (handle_logout s) = NONE_CONNECTION"
  by (simp add: handle_logout_def)

section \<open>The run of an agent\<close>

lemma not_is_Exception: "\<not> is_Exception e \<longleftrightarrow> e = CancelledError"
  by (cases e) auto



lemma ping_loop_not_Returned: "ping_loop evs s \<noteq> Returned v s'"
  by (induction evs s rule: ping_loop.induct) (auto split: sum.splits prod.splits)

lemma start_ping_try_not_Returned: "start_ping_try evs s \<noteq> Returned v s'"
  by (auto simp: start_ping_try_def ping_loop_not_Returned split: list.splits sum.splits prod.splits)

lemma start_ping_cases:
  "(\<exists>s'. start_ping evs s = Suspended s') \<or> (\<exists>s'. start_ping evs s = Returned JNull s')"
  by (cases "start_ping_try evs s") (auto simp: start_ping_def not_is_Exception)


lemma start_ping_Returned: "start_ping evs s = Returned v s' \<Longrightarrow> v = JNull"
  using start_ping_cases [of evs s] by auto

lemma render_profile_info_Returned:
  "render_profile_info evs s = Returned v s' \<Longrightarrow> v = JNull"
  by (cases "render_profile_info_try evs s") (auto simp: render_profile_info_def split: if_splits)





lemma render_profile_info_uid:
  assumes "call_api s DOMAIN_API_SESSION (JObj []) ev = Inr response"
    and "py_getitem response ''data'' = Inr d"
    and "py_get d ''uid'' = Inr uid" and "truthy uid"
  shows "render_profile_info (ev # rest) s = start_ping rest (s\<lparr> account_info := d \<rparr>)"
proof -
  have "render_profile_info_try (ev # rest) s = start_ping rest (s\<lparr> account_info := d \<rparr>)"
    using assms
    by (simp add: render_profile_info_try_def load_session_info_def save_session_info_def)
  then show ?thesis
    using start_ping_cases [of rest "s\<lparr> account_info := d \<rparr>"]
    by (auto simp: render_profile_info_def)
qed

text \<open>
  C5, as stated, fails. On a fresh agent whose authentication call returns
  \<^verbatim>\<open>{code: 0, data: {uid: "abc"}}\<close> the account info has the uid, but the run is then
  suspended in the first heartbeat with the state still \<open>NONE_CONNECTION\<close>: only \<open>ping\<close>
  assigns \<open>CONNECTED\<close>. When that first heartbeat times out the state is \<open>DISCONNECTED\<close>.
\<close>

theorem authenticate_counterexample:
  "render_profile_info
     [Returns (JObj [(''code'', JInt 0), (''data'', JObj [(''uid'', JStr ''abc'')])])]
     (init NP_TOKEN ''P1'' ''b1'')
   = Suspended
     \<lparr> token_info = Some NP_TOKEN, proxy = ''P1'', browser_id = ''b1'',
       account_info = JObj [(''uid'', JStr ''abc'')],
       status_connect = NONE_CONNECTION, retries = 0 \<rparr>
   \<and> render_profile_info
     [Returns (JObj [(''code'', JInt 0), (''data'', JObj [(''uid'', JStr ''abc'')])]),
      Raises TimeoutError]
     (init NP_TOKEN ''P1'' ''b1'')
   = Suspended
     \<lparr> token_info = Some NP_TOKEN, proxy = ''P1'', browser_id = ''b1'',
       account_info = JObj [(''uid'', JStr ''abc'')],
       status_connect = DISCONNECTED, retries = 1 \<rparr>"
  by (simp add: render_profile_info_def render_profile_info_try_def load_session_info_def
      save_session_info_def call_api_def valid_resp_def start_ping_def start_ping_try_def
      ping_def ping_try_def ping_data_def handle_ping_fail_def handle_logout_def init_def
      Let_def)

text \<open>
  C5, amended. On a fresh agent whose authentication call returns
  \<^verbatim>\<open>{code: 0, data: {uid: "abc"}}\<close>, the uid of the account info is \<^verbatim>\<open>"abc"\<close> and the connection
  state is still \<open>NONE_CONNECTION\<close> when the first heartbeat is sent; the state becomes
  \<open>CONNECTED\<close> when that heartbeat receives a validated response whose code equals 0.
\<close>

theorem authenticate_then_heartbeat:
  "render_profile_info
     [Returns (JObj [(''code'', JInt 0), (''data'', JObj [(''uid'', JStr ''abc'')])])]
     (init tok prx uuid)
   = Suspended ((init tok prx uuid)\<lparr> account_info := JObj [(''uid'', JStr ''abc'')] \<rparr>)
   \<and> py_getitem (account_info ((init tok prx uuid)\<lparr> account_info := JObj [(''uid'', JStr ''abc'')] \<rparr>)) ''uid''
       = Inr (JStr ''abc'')
   \<and> status_connect ((init tok prx uuid)\<lparr> account_info := JObj [(''uid'', JStr ''abc'')] \<rparr>)
       = NONE_CONNECTION
   \<and> (valid_resp body = Inr response \<and> py_getitem response ''code'' = Inr c \<and> py_eq_int c 0 \<longrightarrow>
       render_profile_info
         [Returns (JObj [(''code'', JInt 0), (''data'', JObj [(''uid'', JStr ''abc'')])]),
          Returns body]
         (init tok prx uuid)
       = Suspended ((init tok prx uuid)
           \<lparr> account_info := JObj [(''uid'', JStr ''abc'')], retries := 0,
             status_connect := CONNECTED \<rparr>))"
proof -
  let ?auth = "Returns (JObj [(''code'', JInt 0), (''data'', JObj [(''uid'', JStr ''abc'')])])"
  let ?s = "init tok prx uuid"
  let ?s1 = "?s\<lparr> account_info := JObj [(''uid'', JStr ''abc'')] \<rparr>"
  have call: "call_api ?s DOMAIN_API_SESSION (JObj []) ?auth
      = Inr (JObj [(''code'', JInt 0), (''data'', JObj [(''uid'', JStr ''abc'')])])"
    by (simp add: call_api_def valid_resp_def)
  have run: "render_profile_info (?auth # rest) ?s = start_ping rest ?s1" for rest
    using render_profile_info_uid [OF call, of "JObj [(''uid'', JStr ''abc'')]" "JStr ''abc''" rest]
    by simp
  have data: "ping_data ?s1 = Inr (JObj [(''id'', JStr ''abc''), (''browser_id'', JStr uuid)])"
    by (simp add: ping_data_def init_def)
  have first: "start_ping [] ?s1 = Suspended ?s1"
    using data by (simp add: start_ping_def start_ping_try_def)
  have beat: "start_ping [Returns body] ?s1
      = Suspended (?s1\<lparr> retries := 0, status_connect := CONNECTED \<rparr>)"
    if "valid_resp body = Inr response" "py_getitem response ''code'' = Inr c" "py_eq_int c 0"
    using ping_validated [OF data that(1,2)] that(3)
    by (simp add: start_ping_def start_ping_try_def)
  show ?thesis
    using run [of "[]"] run [of "[Returns body]"] first beat
    by (auto simp: init_def)
qed

theorem authenticate_then_heartbeat_witness:
  "render_profile_info
     [Returns (JObj [(''code'', JInt 0), (''data'', JObj [(''uid'', JStr ''abc'')])]),
      Returns (JObj [(''code'', JInt 0)])]
     (init NP_TOKEN ''P1'' ''b1'')
   = Suspended
     \<lparr> token_info = Some NP_TOKEN, proxy = ''P1'', browser_id = ''b1'',
       account_info = JObj [(''uid'', JStr ''abc'')],
       status_connect = CONNECTED, retries = 0 \<rparr>"
proof -
  let ?body = "JObj [(''code'', JInt 0)]"
  have h: "valid_resp ?body = Inr ?body \<and> py_getitem ?body ''code'' = Inr (JInt 0)
      \<and> py_eq_int (JInt 0) 0"
    by (simp add: valid_resp_def)
  show ?thesis
    using authenticate_then_heartbeat [of NP_TOKEN "''P1''" "''b1''" ?body ?body "JInt 0"] h
    by (simp add: init_def)
qed

text \<open>
  C1. The invariant that a \<open>CONNECTED\<close> agent has a uid and a credential is broken by the
  run below: authentication succeeds, the first heartbeat is answered with code 403 and
  logs the agent out, the loop goes on, and the next heartbeat is answered with code 0.
  The agent is then \<open>CONNECTED\<close> with no credential and an empty account info.
\<close>

theorem connected_after_logout:
  "render_profile_info
     [Returns (JObj [(''code'', JInt 0), (''data'', JObj [(''uid'', JStr ''abc'')])]),
      Returns (JObj [(''code'', JInt 403)]),
      Returns JNull,
      Returns (JObj [(''code'', JInt 0)])]
     (init NP_TOKEN ''P1'' ''b1'')
   = Suspended
     \<lparr> token_info = None, proxy = ''P1'', browser_id = ''b1'', account_info = JObj [],
       status_connect = CONNECTED, retries = 0 \<rparr>"
  by (simp add: render_profile_info_def render_profile_info_try_def load_session_info_def
      save_session_info_def call_api_def valid_resp_def start_ping_def start_ping_try_def
      ping_def ping_try_def ping_data_def handle_ping_fail_def handle_logout_def init_def
      Let_def)

section \<open>The fleet\<close>

lemma pop_Inr:
  "pop t ts = Inr (p, ts1) \<Longrightarrow> ts1 = filter (\<lambda>(k, v). k \<noteq> t) ts"
  by (auto simp: pop_def split: option.splits)

lemma pop_keys:
  "t \<in> fst ` set ts \<Longrightarrow> \<exists>p. pop t ts = Inr (p, filter (\<lambda>(k, v). k \<noteq> t) ts)"
  by (auto simp: pop_def map_of_eq_None_iff split: option.splits)

lemma subseq_set: "subseq xs ys \<Longrightarrow> set xs \<subseteq> set ys"
  using list_emb_set [of "(=)" xs ys] by auto

lemma reap_subseq: "subseq (snd (reap done ts)) ts"
proof (induction "done" arbitrary: ts)
  case Nil
  then show ?case by simp
next
  case (Cons a "done")
  obtain t out where a: "a = (t, out)" by (cases a)
  have f: "subseq (snd (reap done (filter (\<lambda>(k, v). k \<noteq> t) ts))) ts"
    using Cons.IH [of "filter (\<lambda>(k, v). k \<noteq> t) ts"] subseq_filter_left subseq_order.trans
    by blast
  show ?case
    using Cons.IH [of ts] f
    by (auto simp: a split: sum.splits prod.splits dest: pop_Inr)
qed

lemma reap_done:
  assumes "distinct (map fst done)"
    and "fst ` set done \<subseteq> fst ` set ts"
    and "\<forall>(t, out) \<in> set done. task_result out = Inr JNull"
  shows "reap done ts = (None, filter (\<lambda>(k, v). k \<notin> fst ` set done) ts)"
  using assms
proof (induction "done" arbitrary: ts)
  case Nil
  then show ?case by simp
next
  case (Cons a "done")
  obtain t out where a: "a = (t, out)" by (cases a)
  let ?ts1 = "filter (\<lambda>(k, v). k \<noteq> t) ts"
  have t: "t \<in> fst ` set ts" "t \<notin> fst ` set done" "task_result out = Inr JNull"
    using Cons.prems by (auto simp: a)
  obtain p where p: "pop t ts = Inr (p, ?ts1)" using pop_keys [OF t(1)] by blast
  have sub: "fst ` set done \<subseteq> fst ` set ?ts1"
  proof
    fix k assume k: "k \<in> fst ` set done"
    then have "k \<noteq> t" using t(2) by auto
    moreover have "k \<in> fst ` set ts" using k Cons.prems(2) by auto
    ultimately show "k \<in> fst ` set ?ts1" by force
  qed
  have "reap done ?ts1 = (None, filter (\<lambda>(k, v). k \<notin> fst ` set done) ?ts1)"
    using Cons.IH [OF _ sub] Cons.prems by (auto simp: a)
  moreover have "filter (\<lambda>(k, v). k \<notin> fst ` set done) ?ts1
      = filter (\<lambda>(k, v). k \<notin> fst ` set (a # done)) ts"
    by (induction ts) (auto simp: a)
  ultimately show ?case
    using t(3) p by (simp add: a)
qed

lemma main_loop_subseq: "x \<in> set (main_loop rounds ts) \<Longrightarrow> subseq x ts"
proof (induction rounds ts rule: main_loop.induct)
  case (1 ts)
  then show ?case by simp
next
  case (2 d rounds ts)
  show ?case
  proof (cases "ts = []")
    case True
    with 2 show ?thesis by simp
  next
    case False
    obtain e ts1 where r: "reap d ts = (e, ts1)" by (cases "reap d ts")
    have s1: "subseq ts1 ts" using reap_subseq [of d ts] r by simp
    show ?thesis
    proof (cases e)
      case None
      with 2 False r s1 show ?thesis
        by (auto intro: subseq_order.trans)
    next
      case (Some a)
      with 2 False r s1 show ?thesis by auto
    qed
  qed
qed

lemma main_loop_sorted: "sorted_wrt (\<lambda>a b. subseq b a) (main_loop rounds ts)"
proof (induction rounds ts rule: main_loop.induct)
  case (1 ts)
  then show ?case by simp
next
  case (2 d rounds ts)
  show ?case
  proof (cases "ts = []")
    case True
    then show ?thesis by simp
  next
    case False
    obtain e ts1 where r: "reap d ts = (e, ts1)" by (cases "reap d ts")
    have s1: "subseq ts1 ts" using reap_subseq [of d ts] r by simp
    show ?thesis
    proof (cases e)
      case None
      have "\<forall>x \<in> set (main_loop rounds ts1). subseq x ts"
        using main_loop_subseq s1 subseq_order.trans by blast
      with 2 False r None show ?thesis by simp
    next
      case (Some a)
      with False r s1 show ?thesis by simp
    qed
  qed
qed

lemma main_loop_nth:
  assumes "i \<le> j" "j < length (main_loop rounds ts)"
  shows "subseq (main_loop rounds ts ! j) (main_loop rounds ts ! i)"
proof (cases "i = j")
  case True
  then show ?thesis by simp
next
  case False
  with assms have "i < j" by simp
  then show ?thesis
    using main_loop_sorted [of rounds ts] assms(2) by (simp add: sorted_wrt_iff_nth_less)
qed

text \<open>
  C8. In every execution of the loop of \<open>main\<close>, the dict of active tasks only shrinks: each
  later value is a subsequence of each earlier one, so a task that is absent at some point
  is absent ever after, and so is a proxy. A round whose done tasks are tasks of the dict
  and have returned from \<open>render_profile_info\<close> removes exactly those tasks.
\<close>

theorem main_loop_only_shrinks:
  "(\<forall>i j. i \<le> j \<and> j < length (main_loop rounds ts) \<longrightarrow>
       subseq (main_loop rounds ts ! j) (main_loop rounds ts ! i))
   \<and> (\<forall>i j t. i \<le> j \<and> j < length (main_loop rounds ts)
         \<and> t \<notin> fst ` set (main_loop rounds ts ! i) \<longrightarrow>
       t \<notin> fst ` set (main_loop rounds ts ! j))
   \<and> (\<forall>i j p. i \<le> j \<and> j < length (main_loop rounds ts)
         \<and> p \<notin> snd ` set (main_loop rounds ts ! i) \<longrightarrow>
       p \<notin> snd ` set (main_loop rounds ts ! j))
   \<and> (ts \<noteq> [] \<and> distinct (map fst done) \<and> fst ` set done \<subseteq> fst ` set ts
       \<and> (\<forall>(t, out) \<in> set done. \<exists>evs s v s'.
             out = render_profile_info evs s \<and> out = Returned v s') \<longrightarrow>
       main_loop (done # rounds) ts
         = ts # main_loop rounds (filter (\<lambda>(k, v). k \<notin> fst ` set done) ts))"
proof -
  have b': "p \<notin> snd ` set (main_loop rounds ts ! j)"
    if "i \<le> j" "j < length (main_loop rounds ts)" "p \<notin> snd ` set (main_loop rounds ts ! i)"
    for i j p
    using subseq_set [OF main_loop_nth [OF that(1,2)]] that(3) by auto
  have a: "subseq (main_loop rounds ts ! j) (main_loop rounds ts ! i)"
    if "i \<le> j" "j < length (main_loop rounds ts)" for i j
    using main_loop_nth that by blast
  have b: "t \<notin> fst ` set (main_loop rounds ts ! j)"
    if "i \<le> j" "j < length (main_loop rounds ts)" "t \<notin> fst ` set (main_loop rounds ts ! i)"
    for i j t
    using subseq_set [OF a [OF that(1,2)]] that(3) by auto
  have c: "main_loop (done # rounds) ts
         = ts # main_loop rounds (filter (\<lambda>(k, v). k \<notin> fst ` set done) ts)"
    if "ts \<noteq> []" "distinct (map fst done)" "fst ` set done \<subseteq> fst ` set ts"
      "\<forall>(t, out) \<in> set done. \<exists>evs s v s'.
             out = render_profile_info evs s \<and> out = Returned v s'"
  proof -
    have "\<forall>(t, out) \<in> set done. task_result out = Inr JNull"
      using that(4) render_profile_info_Returned by fastforce
    then show ?thesis
      using reap_done [OF that(2,3)] that(1) by simp
  qed
  show ?thesis using a b b' c by blast
qed

theorem main_loop_only_shrinks_witness:
  "create_tasks [''p0'', ''p1'', ''p2'', ''p3'', ''p4'']
     = [(0, ''p0''), (1, ''p1''), (2, ''p2''), (3, ''p3''), (4, ''p4'')]
   \<and> main_loop
       [[(1, render_profile_info [Raises ClientError] (init NP_TOKEN ''p1'' ''b1'')),
         (3, render_profile_info [Raises TimeoutError] (init NP_TOKEN ''p3'' ''b3''))]]
       [(0, ''p0''), (1, ''p1''), (2, ''p2''), (3, ''p3''), (4, ''p4'')]
     = [[(0, ''p0''), (1, ''p1''), (2, ''p2''), (3, ''p3''), (4, ''p4'')],
        [(0, ''p0''), (2, ''p2''), (4, ''p4'')]]"
proof -
  let ?ts = "[(0::nat, ''p0''), (1, ''p1''), (2, ''p2''), (3, ''p3''), (4, ''p4'')]"
  let ?o1 = "render_profile_info [Raises ClientError] (init NP_TOKEN ''p1'' ''b1'')"
  let ?o3 = "render_profile_info [Raises TimeoutError] (init NP_TOKEN ''p3'' ''b3'')"
  let ?done = "[(1::nat, ?o1), (3, ?o3)]"
  have c: "create_tasks [''p0'', ''p1'', ''p2'', ''p3'', ''p4''] = ?ts"
    by (simp add: create_tasks_def upt_rec)
  have o1: "?o1 = Returned JNull (init NP_TOKEN ''p1'' ''b1'')"
    by (simp add: render_profile_info_def render_profile_info_try_def load_session_info_def
        call_api_def)
  have o3: "?o3 = Returned JNull (init NP_TOKEN ''p3'' ''b3'')"
    by (simp add: render_profile_info_def render_profile_info_try_def load_session_info_def
        call_api_def)
  have h: "?ts \<noteq> [] \<and> distinct (map fst ?done) \<and> fst ` set ?done \<subseteq> fst ` set ?ts
       \<and> (\<forall>(t, out) \<in> set ?done. \<exists>evs s v s'.
             out = render_profile_info evs s \<and> out = Returned v s')"
  proof -
    have e1: "\<exists>evs s v s'. ?o1 = render_profile_info evs s \<and> ?o1 = Returned v s'"
      by (intro exI conjI, rule refl, rule o1)
    have e3: "\<exists>evs s v s'. ?o3 = render_profile_info evs s \<and> ?o3 = Returned v s'"
      by (intro exI conjI, rule refl, rule o3)
    show ?thesis using e1 e3 by simp
  qed
  have "main_loop (?done # []) ?ts
      = ?ts # main_loop [] (filter (\<lambda>(k, v). k \<notin> fst ` set ?done) ?ts)"
    using main_loop_only_shrinks [of "[]" ?ts ?done] h by blast
  then show ?thesis using c by simp
qed











end
